theory Spec2Isabelle
  imports Main "HOL-Library.Word" "HOL-Library.AList"
begin

section \<open>The world the wrapper runs in\<close>

text \<open>
  \<^verbatim>\<open>bsdiff_jni.cc\<close> is glue code: every step is a call into the operating system
  (\<^verbatim>\<open>open\<close>, \<^verbatim>\<open>fstat\<close>, \<^verbatim>\<open>mmap\<close>, \<^verbatim>\<open>close\<close>, \<^verbatim>\<open>munmap\<close>), into the Java virtual machine
  (the \<^verbatim>\<open>JNIEnv\<close> functions) or into the bsdiff library. The embedding threads one
  record, the world, through these calls. It holds
  \<^item> what the environment decides: how each path behaves under the system calls, which
    Java strings can be retrieved, and what the bsdiff library answers;
  \<^item> the resources that are live: open descriptors, memory mappings, blocks of the
    native heap, character buffers handed out by \<^verbatim>\<open>GetStringUTFChars\<close>, Java arrays;
  \<^item> two logs in program order: the exceptions raised with \<^verbatim>\<open>ThrowNew\<close>, and the calls
    made to the operating system, the allocator and bsdiff.
\<close>

type_synonym byte = "8 word"

datatype platform = ILP32 | LP64

text \<open>\<^verbatim>\<open>std::numeric_limits<size_t>::max()\<close>: \<^verbatim>\<open>size_t\<close> has 32 or 64 bits.\<close>

fun size_t_max :: "platform \<Rightarrow> nat" where
  "size_t_max ILP32 = 2 ^ 32 - 1"
| "size_t_max LP64 = 2 ^ 64 - 1"

text \<open>
  What the operating system does with one path: whether \<^verbatim>\<open>open\<close> succeeds, what
  \<^verbatim>\<open>fstat\<close> reports in \<^verbatim>\<open>st_size\<close> (\<^verbatim>\<open>off_t\<close>, taken as 64 bits; \<open>None\<close> when \<^verbatim>\<open>fstat\<close>
  fails), whether \<^verbatim>\<open>mmap\<close> and \<^verbatim>\<open>close\<close> succeed, and the bytes of the file.
\<close>

record os_file =
  can_open :: bool
  stat_size :: "64 word option"
  mmap_ok :: bool
  close_ok :: bool
  contents :: "byte list"

datatype call =
    SysOpen string
  | SysFstat int
  | SysMmap nat int
  | SysClose int
  | SysMunmap nat nat
  | HeapNew nat nat
  | HeapDelete nat
  | CallBsdiff "byte list" nat "byte list" nat nat

record world =
  platform :: platform
  fs :: "string \<Rightarrow> os_file"
  bsdiff_lib :: "byte list \<Rightarrow> nat \<Rightarrow> byte list \<Rightarrow> nat \<Rightarrow> nat \<Rightarrow> int \<times> byte list"
  jstrings :: "nat \<Rightarrow> string option"
  open_fds :: "(int \<times> string) list"
  mappings :: "(nat \<times> nat) list"
  heap :: "(nat \<times> nat) list"
  mem :: "nat \<Rightarrow> byte list"
  utf_chars :: "(nat \<times> string) list"
  jarrays :: "(nat \<times> byte list) list"
  thrown :: "(string \<times> string) list"
  calls :: "call list"

definition log_call :: "world \<Rightarrow> call \<Rightarrow> world" where
  "log_call w c = w\<lparr>calls := calls w @ [c]\<rparr>"

subsection \<open>System calls\<close>

text \<open>
  A new descriptor is above every open one (and above 0, 1, 2); a new address is above
  the base of every live mapping and heap block. Memory is kept block by block: \<open>mem w p\<close>
  is the content of the block whose base address is \<open>p\<close> (the wrapper never does pointer
  arithmetic: it passes base pointers and lengths on).
\<close>

definition next_fd :: "(int \<times> string) list \<Rightarrow> int" where
  "next_fd fds = Max (set (2 # map fst fds)) + 1"

definition next_addr :: "(nat \<times> nat) list \<Rightarrow> (nat \<times> nat) list \<Rightarrow> nat" where
  "next_addr maps blocks = Suc (Max (set (0 # map fst maps @ map fst blocks)))"

definition fresh_fd :: "world \<Rightarrow> int" where
  "fresh_fd w = next_fd (open_fds w)"

definition fresh_addr :: "world \<Rightarrow> nat" where
  "fresh_addr w = next_addr (mappings w) (heap w)"

definition read_bytes :: "world \<Rightarrow> nat \<Rightarrow> nat \<Rightarrow> byte list" where
  "read_bytes w p n = take n (mem w p)"

text \<open>\<^verbatim>\<open>open(path, O_RDONLY)\<close>: the new descriptor, or -1.\<close>

definition sys_open :: "world \<Rightarrow> string \<Rightarrow> int \<times> world" where
  "sys_open w path =
     (let w1 = log_call w (SysOpen path) in
      if can_open (fs w path)
      then (fresh_fd w, w1\<lparr>open_fds := (fresh_fd w, path) # open_fds w\<rparr>)
      else (-1, w1))"

text \<open>\<^verbatim>\<open>fstat(fd, &st)\<close>: the return value and \<^verbatim>\<open>st.st_size\<close>.\<close>

definition sys_fstat :: "world \<Rightarrow> int \<Rightarrow> int \<times> 64 word \<times> world" where
  "sys_fstat w fd =
     (let w1 = log_call w (SysFstat fd) in
      case map_of (open_fds w) fd of
        None \<Rightarrow> (-1, 0, w1)
      | Some path \<Rightarrow>
          (case stat_size (fs w path) of
             None \<Rightarrow> (-1, 0, w1)
           | Some s \<Rightarrow> (0, s, w1)))"

text \<open>
  \<^verbatim>\<open>mmap(nullptr, len, PROT_READ, MAP_SHARED, fd, 0)\<close>: the base address of the new
  mapping, or \<open>None\<close> for \<^verbatim>\<open>MAP_FAILED\<close>.
\<close>

definition sys_mmap :: "world \<Rightarrow> nat \<Rightarrow> int \<Rightarrow> nat option \<times> world" where
  "sys_mmap w len fd =
     (let w1 = log_call w (SysMmap len fd) in
      case map_of (open_fds w) fd of
        None \<Rightarrow> (None, w1)
      | Some path \<Rightarrow>
          if mmap_ok (fs w path)
          then (Some (fresh_addr w),
                w1\<lparr>mappings := (fresh_addr w, len) # mappings w,
                   mem := (mem w)(fresh_addr w := take len (contents (fs w path)))\<rparr>)
          else (None, w1))"

text \<open>
  \<^verbatim>\<open>close(fd)\<close>: 0 or -1. As on Linux, the descriptor is released also when \<^verbatim>\<open>close\<close>
  reports an error.
\<close>

definition sys_close :: "world \<Rightarrow> int \<Rightarrow> int \<times> world" where
  "sys_close w fd =
     (let w1 = log_call w (SysClose fd) in
      case map_of (open_fds w) fd of
        None \<Rightarrow> (-1, w1)
      | Some path \<Rightarrow>
          (if close_ok (fs w path) then 0 else -1,
           w1\<lparr>open_fds := filter (\<lambda>e. fst e \<noteq> fd) (open_fds w)\<rparr>))"

text \<open>\<^verbatim>\<open>munmap(addr, len)\<close>: 0 when that mapping was live and is now gone, else -1.\<close>

definition sys_munmap :: "world \<Rightarrow> nat \<Rightarrow> nat \<Rightarrow> int \<times> world" where
  "sys_munmap w addr len =
     (let w1 = log_call w (SysMunmap addr len) in
      if (addr, len) \<in> set (mappings w)
      then (0, w1\<lparr>mappings := remove1 (addr, len) (mappings w)\<rparr>)
      else (-1, w1))"

subsection \<open>Exceptions of the Java virtual machine\<close>

text \<open>
  \<^verbatim>\<open>env->ThrowNew(env->FindClass(cls), msg)\<close> does not leave the native function: it
  records an exception of the class named \<open>cls\<close> (which \<^verbatim>\<open>FindClass\<close> finds), and the
  caller sees it once the native function has returned.
  The log \<open>thrown\<close> keeps every call of \<^verbatim>\<open>ThrowNew\<close>, in order. The interface gives no
  rule for a \<^verbatim>\<open>ThrowNew\<close> while an exception is pending; HotSpot then replaces the
  pending exception by the new one. So the exception that the caller sees is the last one
  of the log.
\<close>

definition NativeBsDiffException :: string where
  "NativeBsDiffException =
     ''com/google/archivepatcher/generator/bsdiff/wrapper/NativeBsDiffException''"

definition ThrowNew :: "world \<Rightarrow> string \<Rightarrow> string \<Rightarrow> world" where
  "ThrowNew w cls msg = w\<lparr>thrown := thrown w @ [(cls, msg)]\<rparr>"

definition pending :: "world \<Rightarrow> (string \<times> string) option" where
  "pending w = (if thrown w = [] then None else Some (last (thrown w)))"

section \<open>MapFile\<close>

text \<open>
  \<^verbatim>\<open>uint8_t* MapFile(JNIEnv* env, const char* filename, size_t* filesize)\<close>.
  The result is \<open>None\<close> for \<^verbatim>\<open>nullptr\<close>, and \<open>Some (ret, filesize)\<close> for a mapping at
  \<open>ret\<close> with \<^verbatim>\<open>*filesize\<close> written (the caller reads \<^verbatim>\<open>*filesize\<close> only when the
  pointer is not null). \<^verbatim>\<open>static_cast<uint64_t>(st.st_size)\<close> is \<open>unat st_size\<close>; the
  conversion of \<^verbatim>\<open>st.st_size\<close> to \<^verbatim>\<open>size_t\<close> reduces it modulo \<open>size_t_max + 1\<close>.
\<close>

definition MapFile :: "world \<Rightarrow> string \<Rightarrow> (nat \<times> nat) option \<times> world" where
  "MapFile w filename =
     (case sys_open w filename of (fd, w1) \<Rightarrow>
      if fd < 0
      then (None, ThrowNew w1 NativeBsDiffException
                    (''Unable to open file for mapping: '' @ filename))
      else
       (case sys_fstat w1 fd of (rc, st_size, w2) \<Rightarrow>
        if rc \<noteq> 0
        then (None, ThrowNew w2 NativeBsDiffException
                      (''Unable to perform fstat() on file: '' @ filename))
        else if unat st_size > size_t_max (platform w2)
        then (let w3 = ThrowNew w2 NativeBsDiffException (''File too large: '' @ filename)
              in (None, snd (sys_close w3 fd)))
        else
         (let filesize = unat st_size mod (size_t_max (platform w2) + 1) in
          case sys_mmap w2 filesize fd of
            (None, w3) \<Rightarrow>
              (case sys_close w3 fd of (rc_close, w4) \<Rightarrow>
               let w5 = (if rc_close \<noteq> 0
                         then ThrowNew w4 NativeBsDiffException
                                (''Unable to close file after map failed: '' @ filename)
                         else w4)
               in (None, ThrowNew w5 NativeBsDiffException
                           (''Mapping the file has failed: '' @ filename)))
          | (Some ret, w3) \<Rightarrow>
              (case sys_close w3 fd of (rc_close, w4) \<Rightarrow>
               if rc_close \<noteq> 0
               then (None, ThrowNew w4 NativeBsDiffException
                             (''Unable to close file: '' @ filename))
               else (Some (ret, filesize), w4)))))"

section \<open>The Java native interface\<close>

text \<open>
  A \<^verbatim>\<open>jstring\<close> is a handle; \<open>jstrings w s\<close> is \<open>None\<close> when its characters cannot be
  retrieved (the virtual machine has no memory for the copy). \<^verbatim>\<open>GetStringUTFChars\<close>
  then returns \<^verbatim>\<open>NULL\<close>; otherwise it hands out a buffer with the characters, which
  stays allocated until \<^verbatim>\<open>ReleaseStringUTFChars\<close>.
\<close>

definition GetStringUTFChars :: "world \<Rightarrow> nat \<Rightarrow> string option \<times> world" where
  "GetStringUTFChars w s =
     (case jstrings w s of
        None \<Rightarrow> (None, w)
      | Some cs \<Rightarrow> (Some cs, w\<lparr>utf_chars := (s, cs) # utf_chars w\<rparr>))"

definition ReleaseStringUTFChars :: "world \<Rightarrow> nat \<Rightarrow> string \<Rightarrow> world" where
  "ReleaseStringUTFChars w s cs = w\<lparr>utf_chars := remove1 (s, cs) (utf_chars w)\<rparr>"

text \<open>
  \<^verbatim>\<open>jsize\<close> is a signed 32-bit integer and \<^verbatim>\<open>size_t\<close> an unsigned one of the platform's
  width; the conversions between them wrap around.
\<close>

definition to_jsize :: "nat \<Rightarrow> int" where
  "to_jsize n = sint (of_nat n :: 32 word)"

definition to_size_t :: "platform \<Rightarrow> int \<Rightarrow> nat" where
  "to_size_t p i = nat (i mod (int (size_t_max p) + 1))"

text \<open>
  A \<^verbatim>\<open>jbyteArray\<close> is \<open>None\<close> for the \<^verbatim>\<open>NULL\<close> reference or \<open>Some h\<close> for a handle into the
  store \<open>jarrays\<close>. The array functions of the interface have no defined behaviour on a
  reference that is \<^verbatim>\<open>NULL\<close> or dangling (the virtual machine aborts): they return
  \<open>None\<close> there. \<^verbatim>\<open>NewByteArray\<close> returns \<^verbatim>\<open>NULL\<close> for a negative length (the exception
  that HotSpot raises with it is not recorded). A region outside the array raises
  \<^verbatim>\<open>ArrayIndexOutOfBoundsException\<close>. Allocation in the Java heap and in the native heap
  does not fail for lack of memory.
\<close>

type_synonym jbyteArray = "nat option"

definition next_jarray :: "(nat \<times> byte list) list \<Rightarrow> nat" where
  "next_jarray arrays = Suc (Max (set (0 # map fst arrays)))"

definition fresh_jarray :: "world \<Rightarrow> nat" where
  "fresh_jarray w = next_jarray (jarrays w)"

definition GetArrayLength :: "world \<Rightarrow> jbyteArray \<Rightarrow> int option" where
  "GetArrayLength w array =
     (case array of
        None \<Rightarrow> None
      | Some h \<Rightarrow>
          (case map_of (jarrays w) h of
             None \<Rightarrow> None
           | Some xs \<Rightarrow> Some (to_jsize (length xs))))"

definition NewByteArray :: "world \<Rightarrow> int \<Rightarrow> jbyteArray \<times> world" where
  "NewByteArray w len =
     (if len < 0 then (None, w)
      else (Some (fresh_jarray w),
            w\<lparr>jarrays := (fresh_jarray w, replicate (nat len) 0) # jarrays w\<rparr>))"

definition GetByteArrayRegion ::
  "world \<Rightarrow> jbyteArray \<Rightarrow> int \<Rightarrow> int \<Rightarrow> nat \<Rightarrow> world option" where
  "GetByteArrayRegion w array start len buf =
     (case array of
        None \<Rightarrow> None
      | Some h \<Rightarrow>
          (case map_of (jarrays w) h of
             None \<Rightarrow> None
           | Some xs \<Rightarrow>
               if start < 0 \<or> len < 0 \<or> start + len > int (length xs)
               then Some (ThrowNew w ''java/lang/ArrayIndexOutOfBoundsException'' [])
               else Some (w\<lparr>mem := (mem w)
                            (buf := take (nat len) (drop (nat start) xs)
                                    @ drop (nat len) (mem w buf))\<rparr>)))"

definition SetByteArrayRegion ::
  "world \<Rightarrow> jbyteArray \<Rightarrow> int \<Rightarrow> int \<Rightarrow> byte list \<Rightarrow> world option" where
  "SetByteArrayRegion w array start len buf =
     (case array of
        None \<Rightarrow> None
      | Some h \<Rightarrow>
          (case map_of (jarrays w) h of
             None \<Rightarrow> None
           | Some xs \<Rightarrow>
               if start < 0 \<or> len < 0 \<or> start + len > int (length xs)
               then Some (ThrowNew w ''java/lang/ArrayIndexOutOfBoundsException'' [])
               else Some (w\<lparr>jarrays :=
                            AList.update h
                              (take (nat start) xs @ take (nat len) buf
                               @ drop (nat start + nat len) xs)
                              (jarrays w)\<rparr>)))"

subsection \<open>The native heap\<close>

text \<open>
  \<^verbatim>\<open>absl::make_unique<uint8_t[]>(n)\<close> allocates \<open>n\<close> zero bytes; the destructor of the
  \<^verbatim>\<open>unique_ptr\<close> gives the block back.
\<close>

definition make_unique :: "world \<Rightarrow> nat \<Rightarrow> nat \<times> world" where
  "make_unique w n =
     (fresh_addr w,
      (log_call w (HeapNew (fresh_addr w) n))
        \<lparr>heap := (fresh_addr w, n) # heap w,
         mem := (mem w)(fresh_addr w := replicate n 0)\<rparr>)"

definition unique_ptr_delete :: "world \<Rightarrow> nat \<Rightarrow> world" where
  "unique_ptr_delete w p =
     (log_call w (HeapDelete p))\<lparr>heap := filter (\<lambda>b. fst b \<noteq> p) (heap w)\<rparr>"

section \<open>GeneratePatch\<close>

text \<open>
  A native function either returns a \<^verbatim>\<open>jbyteArray\<close> (\<open>Returned None\<close> is \<^verbatim>\<open>nullptr\<close>) or
  the virtual machine aborts inside it.

  \<^verbatim>\<open>bsdiff::bsdiff(old_buf, old_size, new_buf, new_size, 16, patch_writer.get(), nullptr)\<close>
  is the library's: \<open>bsdiff_lib w\<close> gives its return value and the bytes it has written
  to the vector \<^verbatim>\<open>patch\<close> through the writer.
\<close>

datatype jresult = Aborted | Returned jbyteArray

definition GeneratePatch :: "world \<Rightarrow> nat \<Rightarrow> nat \<Rightarrow> nat \<Rightarrow> nat \<Rightarrow> jresult \<times> world" where
  "GeneratePatch w old_buf old_size new_buf new_size =
     (let old_bytes = read_bytes w old_buf old_size;
          new_bytes = read_bytes w new_buf new_size;
          w1 = log_call w (CallBsdiff old_bytes old_size new_bytes new_size 16)
      in case bsdiff_lib w old_bytes old_size new_bytes new_size 16 of
           (bsdiff_return_value, patch) \<Rightarrow>
             if bsdiff_return_value \<noteq> 0
             then (Returned None,
                   ThrowNew w1 NativeBsDiffException ''BsDiff has failed during generation.'')
             else
              (case NewByteArray w1 (to_jsize (length patch)) of (result, w2) \<Rightarrow>
               (case SetByteArrayRegion w2 result 0 (to_jsize (length patch)) patch of
                  None \<Rightarrow> (Aborted, w2)
                | Some w3 \<Rightarrow> (Returned result, w3))))"

section \<open>The two native methods\<close>

text \<open>\<^verbatim>\<open>nativeGeneratePatchFile(env, jcls, old_filename, new_filename)\<close>.\<close>

definition nativeGeneratePatchFile :: "world \<Rightarrow> nat \<Rightarrow> nat \<Rightarrow> jresult \<times> world" where
  "nativeGeneratePatchFile w old_filename new_filename =
     (case GetStringUTFChars w old_filename of (old_file, w1) \<Rightarrow>
     (case GetStringUTFChars w1 new_filename of (new_file, w2) \<Rightarrow>
      if old_file = None \<or> new_file = None
      then (Returned None,
            ThrowNew w2 NativeBsDiffException ''Unable to retrieve one of the diff files.'')
      else
       (case MapFile w2 (the old_file) of (old_buf, w3) \<Rightarrow>
       (case MapFile w3 (the new_file) of (new_buf, w4) \<Rightarrow>
       (let w5 = ReleaseStringUTFChars w4 old_filename (the old_file);
            w6 = ReleaseStringUTFChars w5 new_filename (the new_file)
        in (case old_buf of
              None \<Rightarrow>
                (case new_buf of
                   None \<Rightarrow> (Returned None, w6)
                 | Some (new_ptr, new_size) \<Rightarrow>
                     (Returned None, snd (sys_munmap w6 new_ptr new_size)))
            | Some (old_ptr, old_size) \<Rightarrow>
                (case new_buf of
                   None \<Rightarrow> (Returned None, snd (sys_munmap w6 old_ptr old_size))
                 | Some (new_ptr, new_size) \<Rightarrow>
                     (case GeneratePatch w6 old_ptr old_size new_ptr new_size of
                        (result, w7) \<Rightarrow>
                          (case result of
                             Aborted \<Rightarrow> (Aborted, w7)
                           | Returned _ \<Rightarrow>
                               (let w8 = snd (sys_munmap w7 old_ptr old_size);
                                    w9 = snd (sys_munmap w8 new_ptr new_size)
                                in (result, w9)))))))))))"

text \<open>
  \<^verbatim>\<open>nativeGeneratePatchData(env, jcls, old_data, new_data)\<close>. The two \<^verbatim>\<open>unique_ptr\<close>s
  are destroyed when the function returns, \<^verbatim>\<open>new_buf\<close> first.
\<close>

definition nativeGeneratePatchData ::
  "world \<Rightarrow> jbyteArray \<Rightarrow> jbyteArray \<Rightarrow> jresult \<times> world" where
  "nativeGeneratePatchData w old_data new_data =
     (case GetArrayLength w old_data of
        None \<Rightarrow> (Aborted, w)
      | Some old_size \<Rightarrow>
     (case GetArrayLength w new_data of
        None \<Rightarrow> (Aborted, w)
      | Some new_size \<Rightarrow>
     (case make_unique w (to_size_t (platform w) old_size) of (old_buf, w1) \<Rightarrow>
     (case make_unique w1 (to_size_t (platform w1) new_size) of (new_buf, w2) \<Rightarrow>
     (case GetByteArrayRegion w2 old_data 0 old_size old_buf of
        None \<Rightarrow> (Aborted, w2)
      | Some w3 \<Rightarrow>
     (case GetByteArrayRegion w3 new_data 0 new_size new_buf of
        None \<Rightarrow> (Aborted, w3)
      | Some w4 \<Rightarrow>
     (case GeneratePatch w4 old_buf (to_size_t (platform w4) old_size)
                            new_buf (to_size_t (platform w4) new_size) of
        (result, w5) \<Rightarrow>
          (case result of
             Aborted \<Rightarrow> (Aborted, w5)
           | Returned _ \<Rightarrow>
               (result, unique_ptr_delete (unique_ptr_delete w5 new_buf) old_buf)))))))))"

section \<open>Vocabulary of the statements\<close>

text \<open>
  The length and the content of the mapping that \<^verbatim>\<open>MapFile\<close> makes of a file, and the
  files for which every step of \<^verbatim>\<open>MapFile\<close> succeeds.
\<close>

definition file_size :: "platform \<Rightarrow> os_file \<Rightarrow> nat" where
  "file_size p file =
     (case stat_size file of
        None \<Rightarrow> 0
      | Some s \<Rightarrow> unat s mod (size_t_max p + 1))"

definition file_bytes :: "platform \<Rightarrow> os_file \<Rightarrow> byte list" where
  "file_bytes p file = take (file_size p file) (contents file)"

definition mappable :: "platform \<Rightarrow> os_file \<Rightarrow> bool" where
  "mappable p file =
     (can_open file
      \<and> (case stat_size file of
            None \<Rightarrow> False
          | Some s \<Rightarrow> unat s \<le> size_t_max p)
      \<and> mmap_ok file \<and> close_ok file)"

text \<open>The system calls of one successful \<^verbatim>\<open>MapFile\<close>.\<close>

definition mapping_calls :: "world \<Rightarrow> string \<Rightarrow> call list" where
  "mapping_calls w f =
     [SysOpen f, SysFstat (fresh_fd w),
      SysMmap (file_size (platform w) (fs w f)) (fresh_fd w), SysClose (fresh_fd w)]"

text \<open>
  What the bsdiff library answers on two mapped files and on two arrays, and the
  \<^verbatim>\<open>min_length\<close> arguments of the calls to bsdiff in a log.
\<close>

definition encoder_on_files :: "world \<Rightarrow> string \<Rightarrow> string \<Rightarrow> int \<times> byte list" where
  "encoder_on_files w old_file new_file =
     bsdiff_lib w (file_bytes (platform w) (fs w old_file)) (file_size (platform w) (fs w old_file))
       (file_bytes (platform w) (fs w new_file)) (file_size (platform w) (fs w new_file)) 16"

definition encoder_on_arrays :: "world \<Rightarrow> byte list \<Rightarrow> byte list \<Rightarrow> int \<times> byte list" where
  "encoder_on_arrays w xs ys = bsdiff_lib w xs (length xs) ys (length ys) 16"

fun min_length_of :: "call \<Rightarrow> nat list" where
  "min_length_of (CallBsdiff _ _ _ _ min_length) = [min_length]"
| "min_length_of _ = []"

definition bsdiff_min_lengths :: "call list \<Rightarrow> nat list" where
  "bsdiff_min_lengths cs = concat (map min_length_of cs)"

section \<open>Example worlds\<close>

text \<open>
  A small file system and string table, and two stand-ins for the bsdiff library: one that
  answers 0 with a patch made of a header of 32 bytes and the new bytes, one that answers 1
  after it has written two bytes. In \<open>boot\<close> no resource is live and the logs are empty.
\<close>

definition absent_file :: os_file where
  "absent_file = \<lparr>can_open = False, stat_size = None, mmap_ok = False, close_ok = False,
                   contents = []\<rparr>"

definition regular_file :: "byte list \<Rightarrow> os_file" where
  "regular_file bs = \<lparr>can_open = True, stat_size = Some (of_nat (length bs)), mmap_ok = True,
                       close_ok = True, contents = bs\<rparr>"

definition example_fs :: "string \<Rightarrow> os_file" where
  "example_fs path =
     (if path = ''old.bin'' then regular_file [65, 66, 67, 68, 69, 70, 71, 72]
      else if path = ''new.bin'' then regular_file [65, 66, 67, 68, 88, 89, 71, 72]
      else if path = ''nostat.bin'' then (regular_file [1, 2, 3])\<lparr>stat_size := None\<rparr>
      else if path = ''nomap.bin''
        then (regular_file [1, 2, 3])\<lparr>mmap_ok := False, close_ok := False\<rparr>
      else if path = ''huge.bin'' then (regular_file [])\<lparr>stat_size := Some (2 ^ 32)\<rparr>
      else absent_file)"

definition example_strings :: "nat \<Rightarrow> string option" where
  "example_strings s =
     (if s = 1 then Some ''old.bin''
      else if s = 2 then Some ''new.bin''
      else if s = 3 then Some ''nostat.bin''
      else if s = 4 then Some ''missing.bin''
      else None)"

definition literal_encoder ::
  "byte list \<Rightarrow> nat \<Rightarrow> byte list \<Rightarrow> nat \<Rightarrow> nat \<Rightarrow> int \<times> byte list" where
  "literal_encoder old_bytes old_size new_bytes new_size min_length =
     (0, replicate 32 0 @ new_bytes)"

definition failing_encoder ::
  "byte list \<Rightarrow> nat \<Rightarrow> byte list \<Rightarrow> nat \<Rightarrow> nat \<Rightarrow> int \<times> byte list" where
  "failing_encoder old_bytes old_size new_bytes new_size min_length = (1, [66, 83])"

definition boot ::
  "platform \<Rightarrow> (nat \<times> byte list) list
   \<Rightarrow> (byte list \<Rightarrow> nat \<Rightarrow> byte list \<Rightarrow> nat \<Rightarrow> nat \<Rightarrow> int \<times> byte list) \<Rightarrow> world" where
  "boot p arrays encoder =
     \<lparr>platform = p, fs = example_fs, bsdiff_lib = encoder, jstrings = example_strings,
      open_fds = [], mappings = [], heap = [], mem = (\<lambda>_. []), utf_chars = [],
      jarrays = arrays, thrown = [], calls = []\<rparr>"

section \<open>Fresh descriptors, addresses and handles\<close>

lemma next_fd_above: "e \<in> set fds \<Longrightarrow> fst e < next_fd fds"
proof -
  assume "e \<in> set fds"
  then have "fst e \<in> set (2 # map fst fds)" by simp
  then have "fst e \<le> Max (set (2 # map fst fds))" by (intro Max_ge) simp_all
  then show ?thesis unfolding next_fd_def by linarith
qed

lemma next_fd_not_negative [simp]: "\<not> next_fd fds < 0"
proof -
  have "2 \<le> Max (set (2 # map fst fds))" by (intro Max_ge) simp_all
  then show ?thesis unfolding next_fd_def by linarith
qed

lemma map_of_next_fd [simp]: "map_of fds (next_fd fds) = None"
  using next_fd_above [of _ fds] by (force simp: map_of_eq_None_iff)

lemma filter_next_fd [simp]: "filter (\<lambda>e. fst e \<noteq> next_fd fds) fds = fds"
  using next_fd_above [of _ fds] by (simp add: filter_id_conv) force

lemma next_addr_above_maps: "e \<in> set maps \<Longrightarrow> fst e < next_addr maps blocks"
proof -
  assume "e \<in> set maps"
  then have "fst e \<in> set (0 # map fst maps @ map fst blocks)" by simp
  then have "fst e \<le> Max (set (0 # map fst maps @ map fst blocks))"
    by (intro Max_ge) simp_all
  then show ?thesis unfolding next_addr_def by linarith
qed

lemma next_addr_above_blocks: "e \<in> set blocks \<Longrightarrow> fst e < next_addr maps blocks"
proof -
  assume "e \<in> set blocks"
  then have "fst e \<in> set (0 # map fst maps @ map fst blocks)" by simp
  then have "fst e \<le> Max (set (0 # map fst maps @ map fst blocks))"
    by (intro Max_ge) simp_all
  then show ?thesis unfolding next_addr_def by linarith
qed

lemma next_addr_not_mapped [simp]: "(next_addr maps blocks, n) \<notin> set maps"
  using next_addr_above_maps [of "(next_addr maps blocks, n)" maps blocks] by auto

lemma next_addr_after_mapping [simp]:
  "next_addr ((next_addr maps blocks, n) # maps) blocks = Suc (next_addr maps blocks)"
proof -
  let ?A = "set (0 # map fst maps @ map fst blocks)"
  have "Max (insert (Suc (Max ?A)) ?A) = Suc (Max ?A)"
    by (subst Max_insert) (simp_all add: max_def)
  then show ?thesis by (simp add: next_addr_def insert_commute)
qed

lemma next_addr_after_new [simp]:
  "next_addr maps ((next_addr maps blocks, n) # blocks) = Suc (next_addr maps blocks)"
proof -
  let ?A = "set (0 # map fst maps @ map fst blocks)"
  have "Max (insert (Suc (Max ?A)) ?A) = Suc (Max ?A)"
    by (subst Max_insert) (simp_all add: max_def)
  then show ?thesis by (simp add: next_addr_def insert_commute Un_insert_right)
qed

lemma filter_both_next_addr [simp]:
  "filter (\<lambda>b. fst b \<noteq> Suc (next_addr maps blocks) \<and> fst b \<noteq> next_addr maps blocks) blocks
   = blocks"
  using next_addr_above_blocks [of _ blocks maps] by (simp add: filter_id_conv) force

lemma map_of_next_addr [simp]:
  "map_of maps (next_addr maps blocks) = None"
  "map_of blocks (next_addr maps blocks) = None"
  "map_of maps (Suc (next_addr maps blocks)) = None"
  "map_of blocks (Suc (next_addr maps blocks)) = None"
  using next_addr_above_maps [of _ maps blocks] next_addr_above_blocks [of _ blocks maps]
  by (force simp: map_of_eq_None_iff)+

lemma map_of_next_jarray [simp]: "map_of arrays (next_jarray arrays) = None"
proof -
  have "fst e < next_jarray arrays" if "e \<in> set arrays" for e
  proof -
    from that have "fst e \<in> set (0 # map fst arrays)" by simp
    then have "fst e \<le> Max (set (0 # map fst arrays))" by (intro Max_ge) simp_all
    then show ?thesis unfolding next_jarray_def by linarith
  qed
  then show ?thesis by (force simp: map_of_eq_None_iff)
qed

lemma fresh_jarray_not_allocated:
  "map_of (jarrays w) a = Some xs \<Longrightarrow> a \<noteq> fresh_jarray w"
  by (auto simp: fresh_jarray_def)

section \<open>The pending exception\<close>

lemma pending_after_throw: "thrown w' = es @ [e] \<Longrightarrow> pending w' = Some e"
  by (simp add: pending_def)

section \<open>The outcomes of MapFile\<close>

text \<open>
  One lemma for each way through \<^verbatim>\<open>MapFile\<close>, with the world it leaves behind. The
  descriptor is new, so looking it up finds the path just opened, and closing it gives the
  table of descriptors from before the call.
\<close>

lemmas sys_defs = sys_open_def sys_fstat_def sys_mmap_def sys_close_def
  log_call_def ThrowNew_def fresh_fd_def fresh_addr_def

lemma MapFile_open_fails:
  "\<not> can_open (fs w f) \<Longrightarrow>
   MapFile w f =
     (None, w\<lparr>thrown := thrown w @ [(NativeBsDiffException, ''Unable to open file for mapping: '' @ f)],
              calls := calls w @ [SysOpen f]\<rparr>)"
  by (simp add: MapFile_def sys_defs Let_def)

lemma MapFile_fstat_fails:
  "can_open (fs w f) \<Longrightarrow> stat_size (fs w f) = None \<Longrightarrow>
   MapFile w f =
     (None, w\<lparr>open_fds := (fresh_fd w, f) # open_fds w,
              thrown := thrown w @ [(NativeBsDiffException, ''Unable to perform fstat() on file: '' @ f)],
              calls := calls w @ [SysOpen f, SysFstat (fresh_fd w)]\<rparr>)"
  by (simp add: MapFile_def sys_defs Let_def)

lemma MapFile_too_large:
  "can_open (fs w f) \<Longrightarrow> stat_size (fs w f) = Some s \<Longrightarrow> size_t_max (platform w) < unat s \<Longrightarrow>
   MapFile w f =
     (None, w\<lparr>thrown := thrown w @ [(NativeBsDiffException, ''File too large: '' @ f)],
              calls := calls w @ [SysOpen f, SysFstat (fresh_fd w), SysClose (fresh_fd w)]\<rparr>)"
  by (simp add: MapFile_def sys_defs Let_def)

lemma MapFile_mmap_fails:
  "can_open (fs w f) \<Longrightarrow> stat_size (fs w f) = Some s \<Longrightarrow> unat s \<le> size_t_max (platform w) \<Longrightarrow>
   \<not> mmap_ok (fs w f) \<Longrightarrow>
   MapFile w f =
     (None, w\<lparr>thrown := thrown w
                @ (if close_ok (fs w f) then []
                   else [(NativeBsDiffException, ''Unable to close file after map failed: '' @ f)])
                @ [(NativeBsDiffException, ''Mapping the file has failed: '' @ f)],
              calls := calls w @ [SysOpen f, SysFstat (fresh_fd w),
                                  SysMmap (file_size (platform w) (fs w f)) (fresh_fd w), SysClose (fresh_fd w)]\<rparr>)"
  by (simp add: MapFile_def sys_defs file_size_def file_bytes_def Let_def)

lemma MapFile_close_fails:
  "can_open (fs w f) \<Longrightarrow> stat_size (fs w f) = Some s \<Longrightarrow> unat s \<le> size_t_max (platform w) \<Longrightarrow>
   mmap_ok (fs w f) \<Longrightarrow> \<not> close_ok (fs w f) \<Longrightarrow>
   MapFile w f =
     (None, w\<lparr>mappings := (fresh_addr w, file_size (platform w) (fs w f)) # mappings w,
              mem := (mem w)(fresh_addr w := file_bytes (platform w) (fs w f)),
              thrown := thrown w @ [(NativeBsDiffException, ''Unable to close file: '' @ f)],
              calls := calls w @ [SysOpen f, SysFstat (fresh_fd w),
                                  SysMmap (file_size (platform w) (fs w f)) (fresh_fd w), SysClose (fresh_fd w)]\<rparr>)"
  by (simp add: MapFile_def sys_defs file_size_def file_bytes_def Let_def)

lemma MapFile_succeeds:
  "can_open (fs w f) \<Longrightarrow> stat_size (fs w f) = Some s \<Longrightarrow> unat s \<le> size_t_max (platform w) \<Longrightarrow>
   mmap_ok (fs w f) \<Longrightarrow> close_ok (fs w f) \<Longrightarrow>
   MapFile w f =
     (Some (fresh_addr w, file_size (platform w) (fs w f)),
      w\<lparr>mappings := (fresh_addr w, file_size (platform w) (fs w f)) # mappings w,
        mem := (mem w)(fresh_addr w := file_bytes (platform w) (fs w f)),
        calls := calls w @ [SysOpen f, SysFstat (fresh_fd w),
                            SysMmap (file_size (platform w) (fs w f)) (fresh_fd w), SysClose (fresh_fd w)]\<rparr>)"
  by (simp add: MapFile_def sys_defs file_size_def file_bytes_def Let_def)

lemma MapFile_mappable:
  "mappable (platform w) (fs w f) \<Longrightarrow>
   MapFile w f =
     (Some (fresh_addr w, file_size (platform w) (fs w f)),
      w\<lparr>mappings := (fresh_addr w, file_size (platform w) (fs w f)) # mappings w,
        mem := (mem w)(fresh_addr w := file_bytes (platform w) (fs w f)),
        calls := calls w @ [SysOpen f, SysFstat (fresh_fd w),
                            SysMmap (file_size (platform w) (fs w f)) (fresh_fd w), SysClose (fresh_fd w)]\<rparr>)"
  by (auto simp: mappable_def MapFile_succeeds split: option.splits)

lemma MapFile_not_mappable:
  assumes "\<not> mappable (platform w) (fs w f)"
  shows "fst (MapFile w f) = None"
proof (cases "can_open (fs w f)")
  case False
  then show ?thesis by (simp add: MapFile_open_fails)
next
  case opened: True
  show ?thesis
  proof (cases "stat_size (fs w f)")
    case None
    with opened show ?thesis by (simp add: MapFile_fstat_fails)
  next
    case (Some s)
    show ?thesis
    proof (cases "unat s \<le> size_t_max (platform w)")
      case False
      with opened Some show ?thesis by (simp add: MapFile_too_large)
    next
      case fits: True
      show ?thesis
      proof (cases "mmap_ok (fs w f)")
        case False
        with opened Some fits show ?thesis by (simp add: MapFile_mmap_fails)
      next
        case True
        with assms opened Some fits have "\<not> close_ok (fs w f)"
          by (simp add: mappable_def)
        with opened Some fits True show ?thesis by (simp add: MapFile_close_fails)
      qed
    qed
  qed
qed



lemma MapFile_calls_open:
  "\<exists>cs. calls (snd (MapFile w f)) = calls w @ SysOpen f # cs"
  by (simp add: MapFile_def sys_defs Let_def split: option.split prod.split)

lemma MapFile_environment:
  "platform (snd (MapFile w f)) = platform w \<and> fs (snd (MapFile w f)) = fs w"
  by (simp add: MapFile_def sys_defs Let_def split: option.split prod.split)

section \<open>The outcomes of GeneratePatch and of the native methods\<close>

text \<open>
  \<^verbatim>\<open>GeneratePatch\<close> has three ways through: bsdiff reports a failure; bsdiff succeeds and
  the length of the patch, as a \<^verbatim>\<open>jsize\<close>, is negative, so that \<^verbatim>\<open>NewByteArray\<close> gives
  \<^verbatim>\<open>NULL\<close> and \<^verbatim>\<open>SetByteArrayRegion\<close> is called on it; bsdiff succeeds and the patch
  is copied to a new array.
\<close>

lemma GeneratePatch_encoder_fails:
  assumes "bsdiff_lib w (read_bytes w a n) n (read_bytes w b m) m 16 = (rv, patch)"
    and "rv \<noteq> 0"
  shows "GeneratePatch w a n b m =
     (Returned None,
      w\<lparr>thrown := thrown w @ [(NativeBsDiffException, ''BsDiff has failed during generation.'')],
        calls := calls w @ [CallBsdiff (read_bytes w a n) n (read_bytes w b m) m 16]\<rparr>)"
  using assms by (simp add: GeneratePatch_def log_call_def ThrowNew_def Let_def)

lemma GeneratePatch_aborts:
  assumes "bsdiff_lib w (read_bytes w a n) n (read_bytes w b m) m 16 = (0, patch)"
    and "to_jsize (length patch) < 0"
  shows "GeneratePatch w a n b m =
     (Aborted, w\<lparr>calls := calls w @ [CallBsdiff (read_bytes w a n) n (read_bytes w b m) m 16]\<rparr>)"
  using assms
  by (simp add: GeneratePatch_def log_call_def Let_def NewByteArray_def SetByteArrayRegion_def
      fresh_jarray_def)

lemma GeneratePatch_returns:
  assumes "bsdiff_lib w (read_bytes w a n) n (read_bytes w b m) m 16 = (0, patch)"
    and "0 \<le> to_jsize (length patch)"
  shows "GeneratePatch w a n b m =
     (Returned (Some (fresh_jarray w)),
      w\<lparr>jarrays := (fresh_jarray w, take (nat (to_jsize (length patch))) patch) # jarrays w,
        calls := calls w @ [CallBsdiff (read_bytes w a n) n (read_bytes w b m) m 16]\<rparr>)"
  using assms
  by (simp add: GeneratePatch_def log_call_def Let_def NewByteArray_def SetByteArrayRegion_def
      fresh_jarray_def)

lemmas file_simps = nativeGeneratePatchFile_def GetStringUTFChars_def
  ReleaseStringUTFChars_def MapFile_mappable GeneratePatch_encoder_fails GeneratePatch_aborts
  GeneratePatch_returns read_bytes_def sys_munmap_def log_call_def fresh_addr_def fresh_fd_def
  fresh_jarray_def mapping_calls_def Let_def

lemma native_file_encoder_fails:
  assumes "jstrings w old_filename = Some old_file"
    and "jstrings w new_filename = Some new_file"
    and "mappable (platform w) (fs w old_file)" and "mappable (platform w) (fs w new_file)"
    and "bsdiff_lib w (file_bytes (platform w) (fs w old_file)) (file_size (platform w) (fs w old_file))
           (file_bytes (platform w) (fs w new_file)) (file_size (platform w) (fs w new_file)) 16 = (rv, patch)"
    and "rv \<noteq> 0"
  shows "nativeGeneratePatchFile w old_filename new_filename =
     (Returned None,
      w\<lparr>mem := (mem w)(fresh_addr w := file_bytes (platform w) (fs w old_file),
                        Suc (fresh_addr w) := file_bytes (platform w) (fs w new_file)),
        thrown := thrown w @ [(NativeBsDiffException, ''BsDiff has failed during generation.'')],
        calls := calls w @ mapping_calls w old_file @ mapping_calls w new_file
                 @ [CallBsdiff (file_bytes (platform w) (fs w old_file)) (file_size (platform w) (fs w old_file))
                      (file_bytes (platform w) (fs w new_file)) (file_size (platform w) (fs w new_file)) 16,
                    SysMunmap (fresh_addr w) (file_size (platform w) (fs w old_file)),
                    SysMunmap (Suc (fresh_addr w)) (file_size (platform w) (fs w new_file))]\<rparr>)"
  using assms by (simp add: file_simps file_bytes_def)


lemma native_file_aborts:
  assumes "jstrings w old_filename = Some old_file"
    and "jstrings w new_filename = Some new_file"
    and "mappable (platform w) (fs w old_file)" and "mappable (platform w) (fs w new_file)"
    and "bsdiff_lib w (file_bytes (platform w) (fs w old_file)) (file_size (platform w) (fs w old_file))
           (file_bytes (platform w) (fs w new_file)) (file_size (platform w) (fs w new_file)) 16 = (0, patch)"
    and "to_jsize (length patch) < 0"
  shows "nativeGeneratePatchFile w old_filename new_filename =
     (Aborted,
      w\<lparr>mappings := (Suc (fresh_addr w), file_size (platform w) (fs w new_file))
                    # (fresh_addr w, file_size (platform w) (fs w old_file)) # mappings w,
        mem := (mem w)(fresh_addr w := file_bytes (platform w) (fs w old_file),
                        Suc (fresh_addr w) := file_bytes (platform w) (fs w new_file)),
        calls := calls w @ mapping_calls w old_file @ mapping_calls w new_file
                 @ [CallBsdiff (file_bytes (platform w) (fs w old_file)) (file_size (platform w) (fs w old_file))
                      (file_bytes (platform w) (fs w new_file)) (file_size (platform w) (fs w new_file)) 16]\<rparr>)"
  using assms by (simp add: file_simps file_bytes_def)

lemma native_file_returns:
  assumes "jstrings w old_filename = Some old_file"
    and "jstrings w new_filename = Some new_file"
    and "mappable (platform w) (fs w old_file)" and "mappable (platform w) (fs w new_file)"
    and "bsdiff_lib w (file_bytes (platform w) (fs w old_file)) (file_size (platform w) (fs w old_file))
           (file_bytes (platform w) (fs w new_file)) (file_size (platform w) (fs w new_file)) 16 = (0, patch)"
    and "0 \<le> to_jsize (length patch)"
  shows "nativeGeneratePatchFile w old_filename new_filename =
     (Returned (Some (fresh_jarray w)),
      w\<lparr>mem := (mem w)(fresh_addr w := file_bytes (platform w) (fs w old_file),
                        Suc (fresh_addr w) := file_bytes (platform w) (fs w new_file)),
        jarrays := (fresh_jarray w, take (nat (to_jsize (length patch))) patch) # jarrays w,
        calls := calls w @ mapping_calls w old_file @ mapping_calls w new_file
                 @ [CallBsdiff (file_bytes (platform w) (fs w old_file)) (file_size (platform w) (fs w old_file))
                      (file_bytes (platform w) (fs w new_file)) (file_size (platform w) (fs w new_file)) 16,
                    SysMunmap (fresh_addr w) (file_size (platform w) (fs w old_file)),
                    SysMunmap (Suc (fresh_addr w)) (file_size (platform w) (fs w new_file))]\<rparr>)"
  using assms by (simp add: file_simps file_bytes_def)

lemma GeneratePatch_calls:
  "\<exists>c. calls (snd (GeneratePatch w a n b m)) = calls w @ [c]"
  by (simp add: GeneratePatch_def NewByteArray_def SetByteArrayRegion_def log_call_def
      ThrowNew_def Let_def split: prod.split option.split)

lemma native_file_calls_extend:
  assumes "jstrings w old_filename = Some old_file"
    and "jstrings w new_filename = Some new_file"
    and "MapFile (w\<lparr>utf_chars := (new_filename, new_file) # (old_filename, old_file)
                                     # utf_chars w\<rparr>) old_file = (old_buf, w3)"
    and "MapFile w3 new_file = (new_buf, w4)"
  shows "\<exists>rest. calls (snd (nativeGeneratePatchFile w old_filename new_filename))
           = calls w4 @ rest"
proof (cases "old_buf = None \<or> new_buf = None")
  case True
  with assms show ?thesis
    by (auto simp: nativeGeneratePatchFile_def GetStringUTFChars_def ReleaseStringUTFChars_def
        sys_munmap_def log_call_def Let_def split: option.split)
next
  case False
  then obtain p n q m where bufs: "old_buf = Some (p, n)" "new_buf = Some (q, m)" by auto
  let ?w6 = "w4\<lparr>utf_chars := remove1 (new_filename, new_file)
                 (remove1 (old_filename, old_file) (utf_chars w4))\<rparr>"
  from GeneratePatch_calls [of ?w6 p n q m]
  obtain c where "calls (snd (GeneratePatch ?w6 p n q m)) = calls w4 @ [c]" by auto
  with assms bufs show ?thesis
    by (auto simp: nativeGeneratePatchFile_def GetStringUTFChars_def ReleaseStringUTFChars_def
        sys_munmap_def log_call_def Let_def split: prod.split jresult.split)
qed

text \<open>
  A Java array has fewer than \<open>2 ^ 31\<close> elements; its length is the same number as a
  \<^verbatim>\<open>jsize\<close> and as a \<^verbatim>\<open>size_t\<close>.
\<close>

lemma to_jsize_small: "n < 2 ^ 31 \<Longrightarrow> to_jsize n = int n"
  by (simp add: to_jsize_def signed_of_nat signed_take_bit_int_eq_self)

lemma to_size_t_small: "n < 2 ^ 31 \<Longrightarrow> to_size_t p (int n) = n"
  by (cases p) (simp_all add: to_size_t_def)

lemmas data_simps = nativeGeneratePatchData_def GetArrayLength_def GetByteArrayRegion_def
  make_unique_def unique_ptr_delete_def to_jsize_small to_size_t_small
  GeneratePatch_encoder_fails GeneratePatch_aborts GeneratePatch_returns
  read_bytes_def log_call_def fresh_addr_def fresh_jarray_def Let_def

lemma native_data_encoder_fails:
  assumes "map_of (jarrays w) a = Some xs" and "length xs < 2 ^ 31"
    and "map_of (jarrays w) b = Some ys" and "length ys < 2 ^ 31"
    and "bsdiff_lib w xs (length xs) ys (length ys) 16 = (rv, patch)"
    and "rv \<noteq> 0"
  shows "nativeGeneratePatchData w (Some a) (Some b) =
     (Returned None,
      w\<lparr>mem := (mem w)(fresh_addr w := xs, Suc (fresh_addr w) := ys),
        thrown := thrown w @ [(NativeBsDiffException, ''BsDiff has failed during generation.'')],
        calls := calls w
                 @ [HeapNew (fresh_addr w) (length xs), HeapNew (Suc (fresh_addr w)) (length ys),
                    CallBsdiff xs (length xs) ys (length ys) 16,
                    HeapDelete (Suc (fresh_addr w)), HeapDelete (fresh_addr w)]\<rparr>)"
  using assms by (simp add: data_simps)

lemma native_data_aborts:
  assumes "map_of (jarrays w) a = Some xs" and "length xs < 2 ^ 31"
    and "map_of (jarrays w) b = Some ys" and "length ys < 2 ^ 31"
    and "bsdiff_lib w xs (length xs) ys (length ys) 16 = (0, patch)"
    and "to_jsize (length patch) < 0"
  shows "nativeGeneratePatchData w (Some a) (Some b) =
     (Aborted,
      w\<lparr>heap := (Suc (fresh_addr w), length ys) # (fresh_addr w, length xs) # heap w,
        mem := (mem w)(fresh_addr w := xs, Suc (fresh_addr w) := ys),
        calls := calls w
                 @ [HeapNew (fresh_addr w) (length xs), HeapNew (Suc (fresh_addr w)) (length ys),
                    CallBsdiff xs (length xs) ys (length ys) 16]\<rparr>)"
  using assms by (simp add: data_simps)

lemma native_data_returns:
  assumes "map_of (jarrays w) a = Some xs" and "length xs < 2 ^ 31"
    and "map_of (jarrays w) b = Some ys" and "length ys < 2 ^ 31"
    and "bsdiff_lib w xs (length xs) ys (length ys) 16 = (0, patch)"
    and "0 \<le> to_jsize (length patch)"
  shows "nativeGeneratePatchData w (Some a) (Some b) =
     (Returned (Some (fresh_jarray w)),
      w\<lparr>mem := (mem w)(fresh_addr w := xs, Suc (fresh_addr w) := ys),
        jarrays := (fresh_jarray w, take (nat (to_jsize (length patch))) patch) # jarrays w,
        calls := calls w
                 @ [HeapNew (fresh_addr w) (length xs), HeapNew (Suc (fresh_addr w)) (length ys),
                    CallBsdiff xs (length xs) ys (length ys) 16,
                    HeapDelete (Suc (fresh_addr w)), HeapDelete (fresh_addr w)]\<rparr>)"
  using assms by (simp add: data_simps)

lemma bsdiff_min_lengths_append [simp]:
  "bsdiff_min_lengths (cs @ ds) = bsdiff_min_lengths cs @ bsdiff_min_lengths ds"
  by (simp add: bsdiff_min_lengths_def)

lemma bsdiff_min_lengths_Cons [simp]:
  "bsdiff_min_lengths (c # cs) = min_length_of c @ bsdiff_min_lengths cs"
  "bsdiff_min_lengths [] = []"
  by (simp_all add: bsdiff_min_lengths_def)

lemma native_file_min_lengths:
  assumes "jstrings w old_filename = Some old_file"
    and "jstrings w new_filename = Some new_file"
    and "mappable (platform w) (fs w old_file)"
    and "mappable (platform w) (fs w new_file)"
  shows "bsdiff_min_lengths (calls (snd (nativeGeneratePatchFile w old_filename new_filename)))
         = bsdiff_min_lengths (calls w) @ [16]"
proof -
  obtain rv patch where answer: "encoder_on_files w old_file new_file = (rv, patch)"
    by (cases "encoder_on_files w old_file new_file")
  consider (fails) "rv \<noteq> 0" | (oversized) "rv = 0" "to_jsize (length patch) < 0"
    | (fits) "rv = 0" "0 \<le> to_jsize (length patch)"
    by linarith
  then show ?thesis
  proof cases
    case fails
    with assms answer show ?thesis
      using native_file_encoder_fails [of w old_filename old_file new_filename new_file rv patch]
      by (simp add: encoder_on_files_def mapping_calls_def)
  next
    case oversized
    with assms answer show ?thesis
      using native_file_aborts [of w old_filename old_file new_filename new_file patch]
      by (simp add: encoder_on_files_def mapping_calls_def)
  next
    case fits
    with assms answer show ?thesis
      using native_file_returns [of w old_filename old_file new_filename new_file patch]
      by (simp add: encoder_on_files_def mapping_calls_def)
  qed
qed

lemma native_data_outcome:
  assumes "map_of (jarrays w) a = Some xs" and "length xs < 2 ^ 31"
    and "map_of (jarrays w) b = Some ys" and "length ys < 2 ^ 31"
  obtains
    (fails) rv patch where "encoder_on_arrays w xs ys = (rv, patch)" and "rv \<noteq> 0"
      and "nativeGeneratePatchData w (Some a) (Some b) =
        (Returned None,
         w\<lparr>mem := (mem w)(fresh_addr w := xs, Suc (fresh_addr w) := ys),
           thrown := thrown w
             @ [(NativeBsDiffException, ''BsDiff has failed during generation.'')],
           calls := calls w
             @ [HeapNew (fresh_addr w) (length xs), HeapNew (Suc (fresh_addr w)) (length ys),
                CallBsdiff xs (length xs) ys (length ys) 16,
                HeapDelete (Suc (fresh_addr w)), HeapDelete (fresh_addr w)]\<rparr>)"
  | (oversized) patch where "encoder_on_arrays w xs ys = (0, patch)"
      and "to_jsize (length patch) < 0"
      and "nativeGeneratePatchData w (Some a) (Some b) =
        (Aborted,
         w\<lparr>heap := (Suc (fresh_addr w), length ys) # (fresh_addr w, length xs) # heap w,
           mem := (mem w)(fresh_addr w := xs, Suc (fresh_addr w) := ys),
           calls := calls w
             @ [HeapNew (fresh_addr w) (length xs), HeapNew (Suc (fresh_addr w)) (length ys),
                CallBsdiff xs (length xs) ys (length ys) 16]\<rparr>)"
  | (fits) patch where "encoder_on_arrays w xs ys = (0, patch)"
      and "0 \<le> to_jsize (length patch)"
      and "nativeGeneratePatchData w (Some a) (Some b) =
        (Returned (Some (fresh_jarray w)),
         w\<lparr>mem := (mem w)(fresh_addr w := xs, Suc (fresh_addr w) := ys),
           jarrays := (fresh_jarray w, take (nat (to_jsize (length patch))) patch) # jarrays w,
           calls := calls w
             @ [HeapNew (fresh_addr w) (length xs), HeapNew (Suc (fresh_addr w)) (length ys),
                CallBsdiff xs (length xs) ys (length ys) 16,
                HeapDelete (Suc (fresh_addr w)), HeapDelete (fresh_addr w)]\<rparr>)"
proof -
  obtain rv patch where answer: "encoder_on_arrays w xs ys = (rv, patch)"
    by (cases "encoder_on_arrays w xs ys")
  consider "rv \<noteq> 0" | "rv = 0" "to_jsize (length patch) < 0"
    | "rv = 0" "0 \<le> to_jsize (length patch)"
    by linarith
  then show thesis
  proof cases
    case 1
    with assms answer fails [of rv patch] show thesis
      using native_data_encoder_fails [of w a xs b ys rv patch]
      by (simp add: encoder_on_arrays_def)
  next
    case 2
    with assms answer oversized [of patch] show thesis
      using native_data_aborts [of w a xs b ys patch]
      by (simp add: encoder_on_arrays_def)
  next
    case 3
    with assms answer fits [of patch] show thesis
      using native_data_returns [of w a xs b ys patch]
      by (simp add: encoder_on_arrays_def)
  qed
qed

section \<open>Acquiring a file: MapFile\<close>

lemmas eval_simps = MapFile_def sys_open_def sys_fstat_def sys_mmap_def sys_close_def
  sys_munmap_def log_call_def ThrowNew_def pending_def fresh_fd_def fresh_addr_def
  next_fd_def next_addr_def boot_def example_fs_def example_strings_def regular_file_def
  absent_file_def Let_def

lemmas eval_file_simps = nativeGeneratePatchFile_def GetStringUTFChars_def
  ReleaseStringUTFChars_def GeneratePatch_def NewByteArray_def SetByteArrayRegion_def
  read_bytes_def fresh_jarray_def next_jarray_def to_jsize_def literal_encoder_def

lemmas eval_data_simps = nativeGeneratePatchData_def GetArrayLength_def
  GetByteArrayRegion_def make_unique_def unique_ptr_delete_def to_size_t_def
  GeneratePatch_def NewByteArray_def SetByteArrayRegion_def read_bytes_def fresh_jarray_def
  next_jarray_def to_jsize_def literal_encoder_def encoder_on_arrays_def

text \<open>
  Claim C1: when \<^verbatim>\<open>open\<close> succeeds and \<^verbatim>\<open>fstat\<close> fails, \<^verbatim>\<open>MapFile\<close> reports the fstat
  error and has closed the descriptor before it returns, so that nothing is held.

  The code reports the error but returns without calling \<^verbatim>\<open>close\<close> (lines 48 to 55; the
  branch for a file that is too large, lines 58 to 64, does call it). On the path
  \<^verbatim>\<open>nostat.bin\<close> of the example file system, which can be opened but not queried, the
  log of calls ends with \<^verbatim>\<open>fstat\<close> and descriptor 3 is still open when \<^verbatim>\<open>MapFile\<close> has
  returned \<^verbatim>\<open>nullptr\<close>.
\<close>

theorem MapFile_fstat_failure_leaves_descriptor_open:
  "fst (MapFile (boot LP64 [] literal_encoder) ''nostat.bin'') = None
   \<and> pending (snd (MapFile (boot LP64 [] literal_encoder) ''nostat.bin''))
       = Some (NativeBsDiffException, ''Unable to perform fstat() on file: nostat.bin'')
   \<and> calls (snd (MapFile (boot LP64 [] literal_encoder) ''nostat.bin''))
       = [SysOpen ''nostat.bin'', SysFstat 3]
   \<and> open_fds (snd (MapFile (boot LP64 [] literal_encoder) ''nostat.bin''))
       = [(3, ''nostat.bin'')]"
  by (simp add: eval_simps)

text \<open>
  Claim C2: when \<^verbatim>\<open>mmap\<close> fails and the \<^verbatim>\<open>close\<close> that cleans up fails too, the error
  that reaches the caller is the one of \<^verbatim>\<open>close\<close>, which masks the one of \<^verbatim>\<open>mmap\<close>.

  The code raises the exception for \<^verbatim>\<open>close\<close> (lines 69 to 75) and, having no
  \<^verbatim>\<open>return\<close> there, goes on to raise the exception for \<^verbatim>\<open>mmap\<close> (lines 76 to 80). On the
  path \<^verbatim>\<open>nomap.bin\<close>, where both calls fail, the two exceptions are raised in that
  order, and the one left pending for the caller is the one of \<^verbatim>\<open>mmap\<close>.
\<close>

theorem MapFile_map_and_close_failure_surfaces_map_error:
  "fst (MapFile (boot LP64 [] literal_encoder) ''nomap.bin'') = None
   \<and> calls (snd (MapFile (boot LP64 [] literal_encoder) ''nomap.bin''))
       = [SysOpen ''nomap.bin'', SysFstat 3, SysMmap 3 3, SysClose 3]
   \<and> thrown (snd (MapFile (boot LP64 [] literal_encoder) ''nomap.bin''))
       = [(NativeBsDiffException, ''Unable to close file after map failed: nomap.bin''),
          (NativeBsDiffException, ''Mapping the file has failed: nomap.bin'')]
   \<and> pending (snd (MapFile (boot LP64 [] literal_encoder) ''nomap.bin''))
       = Some (NativeBsDiffException, ''Mapping the file has failed: nomap.bin'')"
  by (simp add: eval_simps)

text \<open>
  Claim C9: for a file whose size is above the largest value of \<^verbatim>\<open>size_t\<close>, \<^verbatim>\<open>MapFile\<close>
  reports that the file is too large, has closed the descriptor before it returns, and
  has created no mapping.

  The calls made are \<^verbatim>\<open>open\<close>, \<^verbatim>\<open>fstat\<close> and \<^verbatim>\<open>close\<close> of the new descriptor, and no
  \<^verbatim>\<open>mmap\<close>; the open descriptors and the mappings are those from before the call.
\<close>

theorem MapFile_rejects_oversized_file:
  assumes "can_open (fs w filename)"
    and "stat_size (fs w filename) = Some st_size"
    and "size_t_max (platform w) < unat st_size"
  shows "fst (MapFile w filename) = None
    \<and> thrown (snd (MapFile w filename))
        = thrown w @ [(NativeBsDiffException, ''File too large: '' @ filename)]
    \<and> pending (snd (MapFile w filename))
        = Some (NativeBsDiffException, ''File too large: '' @ filename)
    \<and> calls (snd (MapFile w filename))
        = calls w @ [SysOpen filename, SysFstat (fresh_fd w), SysClose (fresh_fd w)]
    \<and> open_fds (snd (MapFile w filename)) = open_fds w
    \<and> mappings (snd (MapFile w filename)) = mappings w"
proof -
  from assms have "thrown (snd (MapFile w filename))
        = thrown w @ [(NativeBsDiffException, ''File too large: '' @ filename)]"
    by (simp add: MapFile_too_large)
  from pending_after_throw [OF this] assms show ?thesis
    by (simp add: MapFile_too_large)
qed

theorem MapFile_rejects_oversized_file_witness:
  "can_open (fs (boot ILP32 [] literal_encoder) ''huge.bin'')
   \<and> stat_size (fs (boot ILP32 [] literal_encoder) ''huge.bin'') = Some (2 ^ 32)
   \<and> size_t_max (platform (boot ILP32 [] literal_encoder)) < unat (2 ^ 32 :: 64 word)
   \<and> fst (MapFile (boot ILP32 [] literal_encoder) ''huge.bin'') = None
   \<and> pending (snd (MapFile (boot ILP32 [] literal_encoder) ''huge.bin''))
       = Some (NativeBsDiffException, ''File too large: huge.bin'')
   \<and> calls (snd (MapFile (boot ILP32 [] literal_encoder) ''huge.bin''))
       = [SysOpen ''huge.bin'', SysFstat 3, SysClose 3]
   \<and> open_fds (snd (MapFile (boot ILP32 [] literal_encoder) ''huge.bin'')) = []
   \<and> mappings (snd (MapFile (boot ILP32 [] literal_encoder) ''huge.bin'')) = []"
  using MapFile_rejects_oversized_file [of "boot ILP32 [] literal_encoder" "''huge.bin''" "2 ^ 32"]
  by (simp add: boot_def example_fs_def regular_file_def fresh_fd_def next_fd_def)

section \<open>Patching two files: nativeGeneratePatchFile\<close>

text \<open>
  Claim C5: when one of the two path arguments cannot be retrieved, the method reports
  that an argument is missing before it acquires any resource, and holds no resource.

  The code calls \<^verbatim>\<open>GetStringUTFChars\<close> on both arguments first and, when one of them
  gives \<^verbatim>\<open>NULL\<close>, returns at once (lines 126 to 131): it makes no system call, but it
  does not give back the characters of the other argument either, which lines 138 and
  139 release on every later path. With the first string retrievable and the second not,
  the buffer of the first is still held after the return.
\<close>

theorem missing_argument_leaves_string_held:
  "fst (nativeGeneratePatchFile (boot LP64 [] literal_encoder) 1 9) = Returned None
   \<and> pending (snd (nativeGeneratePatchFile (boot LP64 [] literal_encoder) 1 9))
       = Some (NativeBsDiffException, ''Unable to retrieve one of the diff files.'')
   \<and> calls (snd (nativeGeneratePatchFile (boot LP64 [] literal_encoder) 1 9)) = []
   \<and> utf_chars (snd (nativeGeneratePatchFile (boot LP64 [] literal_encoder) 1 9))
       = [(1, ''old.bin'')]"
  by (simp add: eval_simps eval_file_simps)

text \<open>
  Claim C3: when exactly one of the two acquisitions fails, the mapping that was made is
  unmapped before the error propagates, the error is the first one met, and after any
  failed acquisition no resource is open when the call has returned.

  The mapping that was made is unmapped, but a descriptor that \<^verbatim>\<open>MapFile\<close> has left
  open stays open: with \<^verbatim>\<open>nostat.bin\<close> as the old file and \<^verbatim>\<open>new.bin\<close> as the new
  one, the mapping of \<^verbatim>\<open>new.bin\<close> is removed and no mapping is left, and descriptor 3 of
  \<^verbatim>\<open>nostat.bin\<close> is still open.
\<close>

theorem failed_acquisition_leaves_descriptor_open:
  "fst (nativeGeneratePatchFile (boot LP64 [] literal_encoder) 3 2) = Returned None
   \<and> pending (snd (nativeGeneratePatchFile (boot LP64 [] literal_encoder) 3 2))
       = Some (NativeBsDiffException, ''Unable to perform fstat() on file: nostat.bin'')
   \<and> calls (snd (nativeGeneratePatchFile (boot LP64 [] literal_encoder) 3 2))
       = [SysOpen ''nostat.bin'', SysFstat 3,
          SysOpen ''new.bin'', SysFstat 4, SysMmap 8 4, SysClose 4, SysMunmap 1 8]
   \<and> mappings (snd (nativeGeneratePatchFile (boot LP64 [] literal_encoder) 3 2)) = []
   \<and> open_fds (snd (nativeGeneratePatchFile (boot LP64 [] literal_encoder) 3 2))
       = [(3, ''nostat.bin'')]"
  by (simp add: eval_simps eval_file_simps)

text \<open>
  Claim C8: both acquisitions are always evaluated, the second also when the first has
  failed; the error propagates only after both, and then only the acquisition that
  succeeded is released.

  Let both strings be retrievable, let \<open>old_buf\<close> and \<open>w3\<close> be what \<^verbatim>\<open>MapFile\<close> gives for
  the old file, and \<open>new_buf\<close> and \<open>w4\<close> what it gives for the new file from \<open>w3\<close>. Then
  the second \<^verbatim>\<open>MapFile\<close> has opened the new file whatever \<open>old_buf\<close> is, and has mapped it
  whenever it can be mapped, and the log of the method continues the log of \<open>w4\<close>. When one
  of the two pointers is null, the method returns \<^verbatim>\<open>nullptr\<close> and raises no exception of
  its own, and after the second \<^verbatim>\<open>MapFile\<close> its only call is the \<^verbatim>\<open>munmap\<close> of the mapping
  that was made, if there is one.
\<close>

theorem both_acquisitions_attempted:
  assumes "jstrings w old_filename = Some old_file"
    and "jstrings w new_filename = Some new_file"
    and "MapFile (w\<lparr>utf_chars := (new_filename, new_file) # (old_filename, old_file)
                                     # utf_chars w\<rparr>) old_file = (old_buf, w3)"
    and "MapFile w3 new_file = (new_buf, w4)"
  shows "(\<exists>cs. calls w4 = calls w3 @ SysOpen new_file # cs)
    \<and> (if mappable (platform w) (fs w new_file)
        then new_buf = Some (fresh_addr w3, file_size (platform w) (fs w new_file))
        else new_buf = None)
    \<and> (\<exists>rest. calls (snd (nativeGeneratePatchFile w old_filename new_filename))
          = calls w4 @ rest)
    \<and> (old_buf = None \<or> new_buf = None \<longrightarrow>
          fst (nativeGeneratePatchFile w old_filename new_filename) = Returned None
          \<and> thrown (snd (nativeGeneratePatchFile w old_filename new_filename)) = thrown w4
          \<and> calls (snd (nativeGeneratePatchFile w old_filename new_filename))
              = calls w4
                @ (case old_buf of
                     None \<Rightarrow> (case new_buf of None \<Rightarrow> [] | Some (p, n) \<Rightarrow> [SysMunmap p n])
                   | Some (p, n) \<Rightarrow> [SysMunmap p n])
          \<and> mappings (snd (nativeGeneratePatchFile w old_filename new_filename))
              = (case old_buf of
                   None \<Rightarrow>
                     (case new_buf of None \<Rightarrow> mappings w4 | Some b \<Rightarrow> remove1 b (mappings w4))
                 | Some b \<Rightarrow> remove1 b (mappings w4)))"
proof -
  from MapFile_calls_open [of w3 new_file] assms(4)
  have opened: "\<exists>cs. calls w4 = calls w3 @ SysOpen new_file # cs" by simp
  from MapFile_environment
    [of "w\<lparr>utf_chars := (new_filename, new_file) # (old_filename, old_file) # utf_chars w\<rparr>"
        old_file] assms(3)
  have env: "platform w3 = platform w" "fs w3 = fs w" by simp_all
  have mapped: "if mappable (platform w) (fs w new_file)
        then new_buf = Some (fresh_addr w3, file_size (platform w) (fs w new_file))
        else new_buf = None"
    using MapFile_mappable [of w3 new_file] MapFile_not_mappable [of w3 new_file] assms(4) env
    by (cases "mappable (platform w) (fs w new_file)") simp_all
  from assms
  have continued: "\<exists>rest. calls (snd (nativeGeneratePatchFile w old_filename new_filename))
          = calls w4 @ rest"
    by (rule native_file_calls_extend)
  have failed: "fst (nativeGeneratePatchFile w old_filename new_filename) = Returned None
          \<and> thrown (snd (nativeGeneratePatchFile w old_filename new_filename)) = thrown w4
          \<and> calls (snd (nativeGeneratePatchFile w old_filename new_filename))
              = calls w4
                @ (case old_buf of
                     None \<Rightarrow> (case new_buf of None \<Rightarrow> [] | Some (p, n) \<Rightarrow> [SysMunmap p n])
                   | Some (p, n) \<Rightarrow> [SysMunmap p n])
          \<and> mappings (snd (nativeGeneratePatchFile w old_filename new_filename))
              = (case old_buf of
                   None \<Rightarrow>
                     (case new_buf of None \<Rightarrow> mappings w4 | Some b \<Rightarrow> remove1 b (mappings w4))
                 | Some b \<Rightarrow> remove1 b (mappings w4))"
    if "old_buf = None \<or> new_buf = None"
    using that assms
    by (auto simp: nativeGeneratePatchFile_def GetStringUTFChars_def ReleaseStringUTFChars_def
        sys_munmap_def log_call_def Let_def remove1_idem split: option.split)
  with opened mapped continued show ?thesis by blast
qed

theorem both_acquisitions_attempted_witness:
  "jstrings (boot LP64 [] literal_encoder) 4 = Some ''missing.bin''
   \<and> jstrings (boot LP64 [] literal_encoder) 2 = Some ''new.bin''
   \<and> fst (MapFile ((boot LP64 [] literal_encoder)
                     \<lparr>utf_chars := [(2, ''new.bin''), (4, ''missing.bin'')]\<rparr>)
           ''missing.bin'') = None
   \<and> fst (nativeGeneratePatchFile (boot LP64 [] literal_encoder) 4 2) = Returned None
   \<and> thrown (snd (nativeGeneratePatchFile (boot LP64 [] literal_encoder) 4 2))
       = [(NativeBsDiffException, ''Unable to open file for mapping: missing.bin'')]
   \<and> calls (snd (nativeGeneratePatchFile (boot LP64 [] literal_encoder) 4 2))
       = [SysOpen ''missing.bin'',
          SysOpen ''new.bin'', SysFstat 3, SysMmap 8 3, SysClose 3, SysMunmap 1 8]
   \<and> mappings (snd (nativeGeneratePatchFile (boot LP64 [] literal_encoder) 4 2)) = []"
  using both_acquisitions_attempted
    [where w = "boot LP64 [] literal_encoder"
       and old_filename = 4 and old_file = "''missing.bin''"
       and new_filename = 2 and new_file = "''new.bin''"
       and old_buf = "fst (MapFile ((boot LP64 [] literal_encoder)
                \<lparr>utf_chars := [(2, ''new.bin''), (4, ''missing.bin'')]\<rparr>) ''missing.bin'')"
       and ?w3.0 = "snd (MapFile ((boot LP64 [] literal_encoder)
                \<lparr>utf_chars := [(2, ''new.bin''), (4, ''missing.bin'')]\<rparr>) ''missing.bin'')"
       and new_buf = "fst (MapFile (snd (MapFile ((boot LP64 [] literal_encoder)
                \<lparr>utf_chars := [(2, ''new.bin''), (4, ''missing.bin'')]\<rparr>) ''missing.bin''))
                ''new.bin'')"
       and ?w4.0 = "snd (MapFile (snd (MapFile ((boot LP64 [] literal_encoder)
                \<lparr>utf_chars := [(2, ''new.bin''), (4, ''missing.bin'')]\<rparr>) ''missing.bin''))
                ''new.bin'')"]
  by (simp add: eval_simps eval_file_simps)

text \<open>
  Claim C4: when both acquisitions succeed, both mappings are unmapped before the call
  returns, on every path, whether bsdiff succeeds or fails.

  With both strings retrievable and both files mappable, the method returns unless the
  virtual machine aborts in \<^verbatim>\<open>GeneratePatch\<close>, which takes a successful bsdiff and a patch
  whose length is negative as a \<^verbatim>\<open>jsize\<close>. Whenever it returns, its last two calls are
  the \<^verbatim>\<open>munmap\<close> of the old and of the new mapping, after the call to bsdiff, and the
  mappings, the open descriptors and the string buffers are those from before the call.
\<close>

theorem both_mappings_released:
  assumes "jstrings w old_filename = Some old_file"
    and "jstrings w new_filename = Some new_file"
    and "mappable (platform w) (fs w old_file)"
    and "mappable (platform w) (fs w new_file)"
  shows "(fst (nativeGeneratePatchFile w old_filename new_filename) = Aborted
          \<longleftrightarrow> fst (encoder_on_files w old_file new_file) = 0
              \<and> to_jsize (length (snd (encoder_on_files w old_file new_file))) < 0)
    \<and> (fst (nativeGeneratePatchFile w old_filename new_filename) \<noteq> Aborted \<longrightarrow>
         mappings (snd (nativeGeneratePatchFile w old_filename new_filename)) = mappings w
         \<and> open_fds (snd (nativeGeneratePatchFile w old_filename new_filename)) = open_fds w
         \<and> utf_chars (snd (nativeGeneratePatchFile w old_filename new_filename)) = utf_chars w
         \<and> calls (snd (nativeGeneratePatchFile w old_filename new_filename))
             = calls w @ mapping_calls w old_file @ mapping_calls w new_file
               @ [CallBsdiff (file_bytes (platform w) (fs w old_file))
                    (file_size (platform w) (fs w old_file))
                    (file_bytes (platform w) (fs w new_file))
                    (file_size (platform w) (fs w new_file)) 16,
                  SysMunmap (fresh_addr w) (file_size (platform w) (fs w old_file)),
                  SysMunmap (Suc (fresh_addr w)) (file_size (platform w) (fs w new_file))])"
proof -
  obtain rv patch where answer: "encoder_on_files w old_file new_file = (rv, patch)"
    by (cases "encoder_on_files w old_file new_file")
  consider (fails) "rv \<noteq> 0" | (oversized) "rv = 0" "to_jsize (length patch) < 0"
    | (fits) "rv = 0" "0 \<le> to_jsize (length patch)"
    by linarith
  then show ?thesis
  proof cases
    case fails
    with assms answer show ?thesis
      using native_file_encoder_fails [of w old_filename old_file new_filename new_file rv patch]
      by (simp add: encoder_on_files_def)
  next
    case oversized
    with assms answer show ?thesis
      using native_file_aborts [of w old_filename old_file new_filename new_file patch]
      by (simp add: encoder_on_files_def)
  next
    case fits
    with assms answer show ?thesis
      using native_file_returns [of w old_filename old_file new_filename new_file patch]
      by (simp add: encoder_on_files_def)
  qed
qed

theorem both_mappings_released_witness:
  "jstrings (boot LP64 [] failing_encoder) 1 = Some ''old.bin''
   \<and> jstrings (boot LP64 [] failing_encoder) 2 = Some ''new.bin''
   \<and> mappable LP64 (example_fs ''old.bin'') \<and> mappable LP64 (example_fs ''new.bin'')
   \<and> fst (nativeGeneratePatchFile (boot LP64 [] failing_encoder) 1 2) = Returned None
   \<and> mappings (snd (nativeGeneratePatchFile (boot LP64 [] failing_encoder) 1 2)) = []
   \<and> open_fds (snd (nativeGeneratePatchFile (boot LP64 [] failing_encoder) 1 2)) = []
   \<and> utf_chars (snd (nativeGeneratePatchFile (boot LP64 [] failing_encoder) 1 2)) = []
   \<and> calls (snd (nativeGeneratePatchFile (boot LP64 [] failing_encoder) 1 2))
       = [SysOpen ''old.bin'', SysFstat 3, SysMmap 8 3, SysClose 3,
          SysOpen ''new.bin'', SysFstat 3, SysMmap 8 3, SysClose 3,
          CallBsdiff [65, 66, 67, 68, 69, 70, 71, 72] 8 [65, 66, 67, 68, 88, 89, 71, 72] 8 16,
          SysMunmap 1 8, SysMunmap 2 8]"
  using both_mappings_released [of "boot LP64 [] failing_encoder" 1 "''old.bin''" 2 "''new.bin''"]
  by (simp add: eval_simps eval_file_simps failing_encoder_def mappable_def)

section \<open>The call to bsdiff\<close>

text \<open>
  Claim C6: in both native methods, whenever both buffers are available, bsdiff is invoked
  exactly once, with the minimal match length 16.

  For two retrievable strings naming mappable files, and for two Java arrays, the
  \<^verbatim>\<open>min_length\<close> arguments of the calls to bsdiff in the log after the method are those
  from before it followed by the single entry 16.
\<close>

theorem encoder_invoked_once_with_16:
  "(jstrings w old_filename = Some old_file \<and> jstrings w new_filename = Some new_file
     \<and> mappable (platform w) (fs w old_file) \<and> mappable (platform w) (fs w new_file)
    \<longrightarrow> bsdiff_min_lengths (calls (snd (nativeGeneratePatchFile w old_filename new_filename)))
        = bsdiff_min_lengths (calls w) @ [16])
   \<and> (map_of (jarrays w) a = Some xs \<and> length xs < 2 ^ 31
       \<and> map_of (jarrays w) b = Some ys \<and> length ys < 2 ^ 31
    \<longrightarrow> bsdiff_min_lengths (calls (snd (nativeGeneratePatchData w (Some a) (Some b))))
        = bsdiff_min_lengths (calls w) @ [16])"
proof (intro conjI impI)
  assume "jstrings w old_filename = Some old_file \<and> jstrings w new_filename = Some new_file
     \<and> mappable (platform w) (fs w old_file) \<and> mappable (platform w) (fs w new_file)"
  then show "bsdiff_min_lengths (calls (snd (nativeGeneratePatchFile w old_filename new_filename)))
        = bsdiff_min_lengths (calls w) @ [16]"
    by (simp add: native_file_min_lengths)
next
  assume "map_of (jarrays w) a = Some xs \<and> length xs < 2 ^ 31
       \<and> map_of (jarrays w) b = Some ys \<and> length ys < 2 ^ 31"
  then have valid: "map_of (jarrays w) a = Some xs" "length xs < 2 ^ 31"
    "map_of (jarrays w) b = Some ys" "length ys < 2 ^ 31"
    by simp_all
  from valid show "bsdiff_min_lengths (calls (snd (nativeGeneratePatchData w (Some a) (Some b))))
        = bsdiff_min_lengths (calls w) @ [16]"
    by (cases rule: native_data_outcome) simp_all
qed

theorem encoder_invoked_once_with_16_witness:
  "jstrings (boot LP64 [(1, [65, 66]), (2, [65, 67])] literal_encoder) 1 = Some ''old.bin''
   \<and> jstrings (boot LP64 [(1, [65, 66]), (2, [65, 67])] literal_encoder) 2 = Some ''new.bin''
   \<and> mappable LP64 (example_fs ''old.bin'') \<and> mappable LP64 (example_fs ''new.bin'')
   \<and> bsdiff_min_lengths (calls (snd (nativeGeneratePatchFile
        (boot LP64 [(1, [65, 66]), (2, [65, 67])] literal_encoder) 1 2))) = [16]
   \<and> map_of (jarrays (boot LP64 [(1, [65, 66]), (2, [65, 67])] literal_encoder)) 1 = Some [65, 66]
   \<and> map_of (jarrays (boot LP64 [(1, [65, 66]), (2, [65, 67])] literal_encoder)) 2 = Some [65, 67]
   \<and> bsdiff_min_lengths (calls (snd (nativeGeneratePatchData
        (boot LP64 [(1, [65, 66]), (2, [65, 67])] literal_encoder) (Some 1) (Some 2)))) = [16]"
  using encoder_invoked_once_with_16
    [of "boot LP64 [(1, [65, 66]), (2, [65, 67])] literal_encoder" 1 "''old.bin''" 2 "''new.bin''"
        1 "[65, 66]" 2 "[65, 67]"]
  by (simp add: boot_def example_fs_def example_strings_def regular_file_def mappable_def)

section \<open>Patching two arrays: nativeGeneratePatchData\<close>

text \<open>
  Claim C7: the method on two arrays fails only if bsdiff reports a failure; and whenever
  bsdiff returns a value other than 0 the method reports that bsdiff has failed and
  returns no partial output.

  The first half fails on the code: the result is a Java byte array, which holds fewer
  than \<open>2 ^ 31\<close> bytes, so a longer patch cannot be returned even though bsdiff has
  returned 0. Here the new array has \<open>2 ^ 31 - 32\<close> bytes and the patch, a header of 32
  bytes followed by the new bytes, has \<open>2 ^ 31\<close>; the method does not return a patch.
\<close>

theorem oversized_patch_aborts_without_encoder_failure:
  "fst (encoder_on_arrays (boot LP64 [(1, []), (2, replicate (2 ^ 31 - 32) 0)] literal_encoder)
          [] (replicate (2 ^ 31 - 32) 0)) = 0
   \<and> fst (nativeGeneratePatchData
            (boot LP64 [(1, []), (2, replicate (2 ^ 31 - 32) 0)] literal_encoder)
            (Some 1) (Some 2)) = Aborted"
  using native_data_aborts
    [of "boot LP64 [(1, []), (2, replicate (2 ^ 31 - 32) 0)] literal_encoder"
        1 "[]" 2 "replicate (2 ^ 31 - 32) 0" "replicate 32 0 @ replicate (2 ^ 31 - 32) 0"]
  by (simp add: boot_def literal_encoder_def encoder_on_arrays_def to_jsize_def)

text \<open>
  Claim C7, amended: on two Java arrays the method fails only if bsdiff reports a failure
  or the patch does not fit a Java byte array, that is, has \<open>2 ^ 31\<close> bytes or more.
  Whenever bsdiff returns a value other than 0 the method returns \<^verbatim>\<open>nullptr\<close>, has raised
  the exception that bsdiff has failed, and has made no Java array. When bsdiff returns 0
  with a patch of fewer than \<open>2 ^ 31\<close> bytes the method returns a new array that holds
  exactly the patch, and raises nothing.

  What the code does with a patch that does not fit is no part of the statement: there
  the result of \<^verbatim>\<open>NewByteArray\<close> is used without a test for \<^verbatim>\<open>NULL\<close> (lines 111 and 112).
\<close>

theorem buffers_fail_only_on_encoder_failure_or_unfitting_patch:
  assumes "map_of (jarrays w) a = Some xs" and "length xs < 2 ^ 31"
    and "map_of (jarrays w) b = Some ys" and "length ys < 2 ^ 31"
  shows "(fst (encoder_on_arrays w xs ys) \<noteq> 0 \<longrightarrow>
            fst (nativeGeneratePatchData w (Some a) (Some b)) = Returned None
            \<and> thrown (snd (nativeGeneratePatchData w (Some a) (Some b)))
                = thrown w
                  @ [(NativeBsDiffException, ''BsDiff has failed during generation.'')]
            \<and> pending (snd (nativeGeneratePatchData w (Some a) (Some b)))
                = Some (NativeBsDiffException, ''BsDiff has failed during generation.'')
            \<and> jarrays (snd (nativeGeneratePatchData w (Some a) (Some b))) = jarrays w)
    \<and> (fst (encoder_on_arrays w xs ys) = 0
        \<and> length (snd (encoder_on_arrays w xs ys)) < 2 ^ 31 \<longrightarrow>
            fst (nativeGeneratePatchData w (Some a) (Some b)) = Returned (Some (fresh_jarray w))
            \<and> map_of (jarrays (snd (nativeGeneratePatchData w (Some a) (Some b)))) (fresh_jarray w)
                = Some (snd (encoder_on_arrays w xs ys))
            \<and> thrown (snd (nativeGeneratePatchData w (Some a) (Some b))) = thrown w)
    \<and> (fst (nativeGeneratePatchData w (Some a) (Some b)) = Returned None
        \<or> fst (nativeGeneratePatchData w (Some a) (Some b)) = Aborted \<longrightarrow>
            fst (encoder_on_arrays w xs ys) \<noteq> 0
            \<or> 2 ^ 31 \<le> length (snd (encoder_on_arrays w xs ys)))"
  using assms
proof (cases rule: native_data_outcome)
  case (fails rv patch)
  then show ?thesis
    using pending_after_throw
      [of "snd (nativeGeneratePatchData w (Some a) (Some b))" "thrown w"
          "(NativeBsDiffException, ''BsDiff has failed during generation.'')"]
    by simp
next
  case (oversized patch)
  have "2 ^ 31 \<le> length patch"
  proof (rule ccontr)
    assume "\<not> 2 ^ 31 \<le> length patch"
    then have "to_jsize (length patch) = int (length patch)"
      by (simp add: to_jsize_small)
    with oversized(2) show False by simp
  qed
  with oversized show ?thesis by simp
next
  case (fits patch)
  then show ?thesis by (auto simp: to_jsize_small)
qed

theorem buffers_fail_only_on_encoder_failure_or_unfitting_patch_witness:
  "map_of (jarrays (boot LP64 [(1, [65, 66]), (2, [65, 67])] failing_encoder)) 1 = Some [65, 66]
   \<and> map_of (jarrays (boot LP64 [(1, [65, 66]), (2, [65, 67])] failing_encoder)) 2 = Some [65, 67]
   \<and> fst (encoder_on_arrays (boot LP64 [(1, [65, 66]), (2, [65, 67])] failing_encoder)
            [65, 66] [65, 67]) = 1
   \<and> fst (nativeGeneratePatchData (boot LP64 [(1, [65, 66]), (2, [65, 67])] failing_encoder)
            (Some 1) (Some 2)) = Returned None
   \<and> pending (snd (nativeGeneratePatchData
                     (boot LP64 [(1, [65, 66]), (2, [65, 67])] failing_encoder) (Some 1) (Some 2)))
       = Some (NativeBsDiffException, ''BsDiff has failed during generation.'')
   \<and> jarrays (snd (nativeGeneratePatchData
                     (boot LP64 [(1, [65, 66]), (2, [65, 67])] failing_encoder) (Some 1) (Some 2)))
       = [(1, [65, 66]), (2, [65, 67])]"
  using buffers_fail_only_on_encoder_failure_or_unfitting_patch
    [of "boot LP64 [(1, [65, 66]), (2, [65, 67])] failing_encoder" 1 "[65, 66]" 2 "[65, 67]"]
  by (simp add: boot_def failing_encoder_def encoder_on_arrays_def)

text \<open>
  Claim C10: the method on two arrays never modifies its inputs: it copies each of them
  into a newly allocated buffer of its own, of exactly the input's length, before it
  invokes bsdiff, and both inputs are unchanged after the call.

  For two Java arrays with contents \<open>xs\<close> and \<open>ys\<close>, the method first allocates a block of
  \<open>length xs\<close> bytes and one of \<open>length ys\<close> bytes, at two addresses where no block and no
  mapping was live, and then calls bsdiff on blocks that hold \<open>xs\<close> and \<open>ys\<close>. Whatever
  the outcome, the two handles still refer to \<open>xs\<close> and \<open>ys\<close> afterwards; and when the
  method returns, the two blocks have been given back.
\<close>

theorem buffer_inputs_copied_and_unchanged:
  assumes "map_of (jarrays w) a = Some xs" and "length xs < 2 ^ 31"
    and "map_of (jarrays w) b = Some ys" and "length ys < 2 ^ 31"
  shows "map_of (jarrays (snd (nativeGeneratePatchData w (Some a) (Some b)))) a = Some xs
    \<and> map_of (jarrays (snd (nativeGeneratePatchData w (Some a) (Some b)))) b = Some ys
    \<and> (\<exists>rest. calls (snd (nativeGeneratePatchData w (Some a) (Some b)))
          = calls w
            @ [HeapNew (fresh_addr w) (length xs), HeapNew (Suc (fresh_addr w)) (length ys),
               CallBsdiff xs (length xs) ys (length ys) 16]
            @ rest)
    \<and> map_of (heap w) (fresh_addr w) = None \<and> map_of (mappings w) (fresh_addr w) = None
    \<and> map_of (heap w) (Suc (fresh_addr w)) = None
    \<and> map_of (mappings w) (Suc (fresh_addr w)) = None
    \<and> (fst (nativeGeneratePatchData w (Some a) (Some b)) \<noteq> Aborted \<longrightarrow>
          heap (snd (nativeGeneratePatchData w (Some a) (Some b))) = heap w)"
  using assms
proof (cases rule: native_data_outcome)
  case (fails rv patch)
  with assms show ?thesis by (simp add: fresh_addr_def)
next
  case (oversized patch)
  with assms show ?thesis by (simp add: fresh_addr_def)
next
  case (fits patch)
  with assms fresh_jarray_not_allocated [of w a xs] fresh_jarray_not_allocated [of w b ys]
  show ?thesis by (simp add: fresh_addr_def)
qed

theorem buffer_inputs_copied_and_unchanged_witness:
  "map_of (jarrays (boot LP64 [(1, [65, 66]), (2, [65, 67])] literal_encoder)) 1 = Some [65, 66]
   \<and> map_of (jarrays (boot LP64 [(1, [65, 66]), (2, [65, 67])] literal_encoder)) 2 = Some [65, 67]
   \<and> fst (nativeGeneratePatchData (boot LP64 [(1, [65, 66]), (2, [65, 67])] literal_encoder)
            (Some 1) (Some 2)) = Returned (Some 3)
   \<and> jarrays (snd (nativeGeneratePatchData
                     (boot LP64 [(1, [65, 66]), (2, [65, 67])] literal_encoder) (Some 1) (Some 2)))
       = [(3, replicate 32 0 @ [65, 67]), (1, [65, 66]), (2, [65, 67])]
   \<and> calls (snd (nativeGeneratePatchData
                     (boot LP64 [(1, [65, 66]), (2, [65, 67])] literal_encoder) (Some 1) (Some 2)))
       = [HeapNew 1 2, HeapNew 2 2, CallBsdiff [65, 66] 2 [65, 67] 2 16,
          HeapDelete 2, HeapDelete 1]
   \<and> heap (snd (nativeGeneratePatchData
                     (boot LP64 [(1, [65, 66]), (2, [65, 67])] literal_encoder) (Some 1) (Some 2)))
       = []"
  using buffer_inputs_copied_and_unchanged
    [of "boot LP64 [(1, [65, 66]), (2, [65, 67])] literal_encoder" 1 "[65, 66]" 2 "[65, 67]"]
  by (simp add: eval_simps eval_data_simps)

end
